theory Spec2Isabelle
  imports Complex_Main
begin

section \<open>Onboarding walkthrough (static/js/onboarding.js)\<close>

text \<open>
  The class \<open>OnboardingManager\<close> is embedded by explicit state passing. One record holds
  the fields of the manager object together with the parts of the browser it reads and
  writes: the key-value store \<open>localStorage\<close>, the query string, the document (welcome
  modal, overlay, callout, completion banners, highlighted element), the pending
  \<open>setTimeout\<close> callbacks, the requests issued through \<open>fetch\<close> and the console.

  Pixel coordinates and the progress percentage are JavaScript numbers; they are
  modelled by \<open>real\<close>, so rounding of IEEE doubles is idealised away. The step index is
  an \<open>int\<close>, since \<open>showStep\<close> tests it against \<open>0\<close> from below.
\<close>

subsection \<open>Data\<close>

record rect =
  r_top :: real
  r_left :: real
  r_width :: real
  r_height :: real

definition r_bottom :: "rect \<Rightarrow> real" where
  "r_bottom r = r_top r + r_height r"

definition r_right :: "rect \<Rightarrow> real" where
  "r_right r = r_left r + r_width r"

text \<open>An element found by \<open>document.querySelector\<close>: its identity and bounding rectangle.\<close>

record element =
  eid :: nat
  erect :: rect

text \<open>A step descriptor as written in the table of \<open>getTutorialSteps\<close>.\<close>

record step =
  target :: string
  title :: string
  description :: string
  position :: string
  highlight :: "string option"

text \<open>
  The callout element. \<open>c_current_step\<close> and \<open>c_total_steps\<close> are the text of the spans
  \<open>.current-step\<close> and \<open>.total-steps\<close>, kept as numbers; \<open>c_fill_width\<close> is the
  percentage written to the width of the progress bar; \<open>c_attached\<close> says whether the
  element is in the document.
\<close>

record callout_el =
  c_title :: string
  c_description :: string
  c_current_step :: int
  c_total_steps :: nat
  c_fill_width :: "real option"
  c_prev_disabled :: bool
  c_prev_opacity :: string
  c_next_text :: string
  c_active :: bool
  c_data_position :: "string option"
  c_style_top :: "real option"
  c_style_left :: "real option"
  c_attached :: bool

record overlay_el =
  ov_active :: bool
  ov_attached :: bool

text \<open>The callbacks handed to \<open>setTimeout\<close>, one constructor per closure of the source.\<close>

datatype action =
    StartTutorial
  | ShowWelcomeModal
  | ModalAddActive
  | ModalRemove
  | OverlayAddActive
  | ShowStep0
  | ShowStepNext
  | ShowStepPrev
  | CalloutRemove
  | OverlayRemove
  | MessageAddActive nat
  | MessageDismiss nat
  | MessageRemove nat

record request =
  url :: string
  http_method :: string
  headers :: "(string \<times> string) list"
  body :: string

record state =
  currentStep :: int
  isActive :: bool
  tutorialSteps :: "step list"
  overlay :: "overlay_el option"
  callout :: "callout_el option"
  hasCompletedTutorial :: bool
  localStorage :: "string \<rightharpoonup> string"
  search :: "(string \<times> string) list"
  accountType :: "string option"
  bodyActive :: bool
  querySelector :: "string \<rightharpoonup> element"
  highlighted :: "(nat \<times> string list) option"
  scrolledTo :: "nat option"
  modal :: "bool option"
  messages :: "(nat \<times> bool) list"
  nextId :: nat
  innerWidth :: real
  innerHeight :: real
  calloutSize :: "real \<times> real"
  timers :: "(nat \<times> action) list"
  now :: nat
  fetches :: "request list"
  console :: "string list"
  listening :: bool
  uncaught :: nat

subsection \<open>Timers\<close>

text \<open>
  \<open>setTimeout(f, d)\<close> queues the callback with the deadline \<open>now + d\<close>. The queue is kept
  in firing order: earlier deadlines first, and among equal deadlines the callback queued
  first.
\<close>

fun enqueue :: "nat \<times> action \<Rightarrow> (nat \<times> action) list \<Rightarrow> (nat \<times> action) list" where
  "enqueue t [] = [t]"
| "enqueue t (u # us) = (if fst t < fst u then t # u # us else u # enqueue t us)"

definition setTimeout :: "action \<Rightarrow> nat \<Rightarrow> state \<Rightarrow> state" where
  "setTimeout a d s = s\<lparr>timers := enqueue (now s + d, a) (timers s)\<rparr>"

subsection \<open>The step catalog\<close>

definition student_steps :: "step list" where
  \<open>student_steps = [
    \<lparr>target = ''.bento-profile'',
     title = ''Your Profile'',
     description = ''Access your profile settings and personal information. Click here to customize your account.'',
     position = ''bottom'', highlight = None\<rparr>,
    \<lparr>target = ''.bento-streak'',
     title = ''Study Streak'',
     description = ''Track your daily study consistency. Build momentum by studying every day to maintain your streak!'',
     position = ''bottom'', highlight = None\<rparr>,
    \<lparr>target = ''.bento-explore'',
     title = ''Career Exploration'',
     description = ''Discover career paths that match your interests. Explore different fields and plan your future.'',
     position = ''bottom'', highlight = None\<rparr>,
    \<lparr>target = ''.bento-perf'',
     title = ''Analytics Dashboard'',
     description = ''View detailed insights about your study patterns, time spent, and performance trends over time.'',
     position = ''bottom'', highlight = None\<rparr>,
    \<lparr>target = ''.bento-academic'',
     title = ''Academic Progress'',
     description = ''Monitor your overall academic progress across all subjects. See completion rates and chapter statistics.'',
     position = ''right'', highlight = None\<rparr>,
    \<lparr>target = ''.bento-schedule'',
     title = ''Calendar'',
     description = ''Manage your schedule, view upcoming events, and plan your study sessions effectively.'',
     position = ''left'', highlight = None\<rparr>,
    \<lparr>target = ''.bento-tasks'',
     title = ''Task Management'',
     description = ''Create, track, and complete tasks. Stay organized and boost your productivity.'',
     position = ''top'', highlight = None\<rparr>,
    \<lparr>target = ''.bento-subjects'',
     title = ''Subject Mastery'',
     description = ''Track progress in individual subjects. See detailed breakdowns of your mastery in each area.'',
     position = ''top'', highlight = None\<rparr>,
    \<lparr>target = ''a[href*="/dashboard"]'',
     title = ''Home'',
     description = ''Return to this main dashboard view anytime to see your overview.'',
     position = ''bottom'', highlight = Some ''notch''\<rparr>,
    \<lparr>target = ''a[href*="/calendar"]'',
     title = ''Calendar View'',
     description = ''Access your full calendar with detailed event management and scheduling tools.'',
     position = ''bottom'', highlight = Some ''notch''\<rparr>,
    \<lparr>target = ''a[href*="/academic"]'',
     title = ''Academic Dashboard'',
     description = ''Deep dive into your academic progress, syllabus, and subject-specific details.'',
     position = ''bottom'', highlight = Some ''notch''\<rparr>,
    \<lparr>target = ''a[href*="/study-mode"]'',
     title = ''Study Mode'',
     description = ''Enter focused study sessions with timers, break reminders, and distraction-free environment.'',
     position = ''bottom'', highlight = Some ''notch''\<rparr>,
    \<lparr>target = ''a[href*="/interests"]'',
     title = ''Career Center'',
     description = ''Explore careers, courses, and internships. Plan your professional journey.'',
     position = ''bottom'', highlight = Some ''notch''\<rparr>,
    \<lparr>target = ''a[href*="/community"]'',
     title = ''Community'',
     description = ''Connect with other learners, share knowledge, and collaborate on projects.'',
     position = ''bottom'', highlight = Some ''notch''\<rparr>,
    \<lparr>target = ''a[href*="/master-library"]'',
     title = ''Library'',
     description = ''Access your study materials, notes, and resources in one organized place.'',
     position = ''bottom'', highlight = Some ''notch''\<rparr>,
    \<lparr>target = ''a[href*="/ai-assistant"]'',
     title = ''AI Assistant'',
     description = ''Get instant help with your studies. Ask questions and receive personalized guidance.'',
     position = ''bottom'', highlight = Some ''notch''\<rparr>,
    \<lparr>target = ''a[href*="/docs"]'',
     title = ''Documentation'',
     description = ''Access help articles, guides, and tutorials to make the most of Sclera.'',
     position = ''bottom'', highlight = Some ''notch''\<rparr>,
    \<lparr>target = ''a[href*="/statistics"]'',
     title = ''Statistics'',
     description = ''View comprehensive analytics, charts, and insights about your learning journey.'',
     position = ''bottom'', highlight = Some ''notch''\<rparr>,
    \<lparr>target = ''#themeToggle'',
     title = ''Theme Toggle'',
     description = ''Switch between dark and light modes to match your preference.'',
     position = ''bottom'', highlight = Some ''action''\<rparr>,
    \<lparr>target = ''.profile-btn'',
     title = ''Profile Menu'',
     description = ''Access settings, logout, and other account options from this menu.'',
     position = ''bottom'', highlight = Some ''action''\<rparr>
  ]\<close>

text \<open>
  \<open>document.body.dataset.accountType || 'student'\<close>: an absent or empty attribute counts
  as \<open>student\<close>; every other account type has the empty catalog.
\<close>

definition getTutorialSteps :: "state \<Rightarrow> step list" where
  "getTutorialSteps s =
     (let accountType = (case accountType s of None \<Rightarrow> ''student''
                         | Some a \<Rightarrow> if a = [] then ''student'' else a)
      in if accountType = ''student'' then student_steps else [])"

subsection \<open>Startup\<close>

definition checkTutorialStatus :: "state \<Rightarrow> bool" where
  "checkTutorialStatus s = (localStorage s ''sclera_tutorial_completed'' = Some ''true'')"

text \<open>
  The only caller of \<open>showWelcomeModal\<close> is the timer queued by \<open>init\<close>, so a page has at
  most one welcome modal: \<open>modal s = Some a\<close> says that it is in the document and whether
  it carries the class \<open>active\<close>.
\<close>

definition showWelcomeModal :: "state \<Rightarrow> state" where
  "showWelcomeModal s = setTimeout ModalAddActive 10 (s\<lparr>modal := Some False\<rparr>)"

definition createOverlay :: "state \<Rightarrow> state" where
  "createOverlay s =
     setTimeout OverlayAddActive 10
       (s\<lparr>overlay := Some \<lparr>ov_active = False, ov_attached = True\<rparr>\<rparr>)"

definition initial_callout :: callout_el where
  "initial_callout =
     \<lparr>c_title = [], c_description = [], c_current_step = 1, c_total_steps = 0,
      c_fill_width = None, c_prev_disabled = False, c_prev_opacity = [],
      c_next_text = ''Next'', c_active = False, c_data_position = None,
      c_style_top = None, c_style_left = None, c_attached = True\<rparr>"

definition createCallout :: "state \<Rightarrow> state" where
  "createCallout s = s\<lparr>callout := Some initial_callout\<rparr>"

definition startTutorial :: "state \<Rightarrow> state" where
  "startTutorial s =
     (let s1 = (case modal s of
                  None \<Rightarrow> s
                | Some a \<Rightarrow> setTimeout ModalRemove 300 (s\<lparr>modal := Some False\<rparr>));
          s2 = s1\<lparr>tutorialSteps := getTutorialSteps s1, currentStep := 0, isActive := True\<rparr>;
          s3 = s2\<lparr>bodyActive := True\<rparr>;
          s4 = createCallout (createOverlay s3)
      in setTimeout ShowStep0 500 s4)"

text \<open>\<open>URLSearchParams.get\<close> returns the first value stored under the name.\<close>

definition init :: "state \<Rightarrow> state" where
  "init s =
     (if map_of (search s) ''tutorial'' = Some ''start''
      then setTimeout StartTutorial 500 (s\<lparr>search := []\<rparr>)
      else
        let isFirstVisit = (case localStorage s ''sclera_visited'' of
                              None \<Rightarrow> True | Some v \<Rightarrow> v = []);
            s1 = (if isFirstVisit \<and> \<not> hasCompletedTutorial s
                  then setTimeout ShowWelcomeModal 800
                         (s\<lparr>localStorage := (localStorage s)(''sclera_visited'' \<mapsto> ''true'')\<rparr>)
                  else s)
        in s1\<lparr>listening := True\<rparr>)"

text \<open>What a page load hands to the constructor.\<close>

record page =
  p_localStorage :: "string \<rightharpoonup> string"
  p_search :: "(string \<times> string) list"
  p_accountType :: "string option"
  p_querySelector :: "string \<rightharpoonup> element"
  p_innerWidth :: real
  p_innerHeight :: real
  p_calloutSize :: "real \<times> real"

definition fresh :: "page \<Rightarrow> state" where
  "fresh p =
     \<lparr>currentStep = 0, isActive = False, tutorialSteps = [], overlay = None, callout = None,
      hasCompletedTutorial = False, localStorage = p_localStorage p, search = p_search p,
      accountType = p_accountType p, bodyActive = False,
      querySelector = p_querySelector p, highlighted = None, scrolledTo = None,
      modal = None, messages = [], nextId = 0, innerWidth = p_innerWidth p,
      innerHeight = p_innerHeight p, calloutSize = p_calloutSize p, timers = [], now = 0,
      fetches = [], console = [], listening = False, uncaught = 0\<rparr>"

definition constructor :: "page \<Rightarrow> state" where
  "constructor p =
     (let s = fresh p in init (s\<lparr>hasCompletedTutorial := checkTutorialStatus s\<rparr>))"

subsection \<open>Rendering a step\<close>

definition highlightElement :: "element \<Rightarrow> step \<Rightarrow> state \<Rightarrow> state" where
  "highlightElement el st s =
     s\<lparr>highlighted := Some (eid el,
          ''onboarding-highlight'' #
            (if highlight st = Some ''notch'' then [''onboarding-highlight-notch'']
             else if highlight st = Some ''action'' then [''onboarding-highlight-action'']
             else []))\<rparr>"

definition spacing :: real where
  "spacing = 20"

text \<open>
  The arithmetic of \<open>positionCallout\<close>: from the target rectangle, the size of the callout,
  the requested side and the size of the viewport to \<open>(top, left, data-position)\<close>.
\<close>

definition place :: "rect \<Rightarrow> real \<times> real \<Rightarrow> string \<Rightarrow> real \<times> real \<Rightarrow> real \<times> real \<times> string" where
  "place targetRect calloutRect pos viewport =
     (let cw = fst calloutRect; ch = snd calloutRect;
          (top0, left0, side) =
            (if pos = ''top'' then
               (r_top targetRect - ch - spacing,
                r_left targetRect + (r_width targetRect / 2) - (cw / 2), ''top'')
             else if pos = ''bottom'' then
               (r_bottom targetRect + spacing,
                r_left targetRect + (r_width targetRect / 2) - (cw / 2), ''bottom'')
             else if pos = ''left'' then
               (r_top targetRect + (r_height targetRect / 2) - (ch / 2),
                r_left targetRect - cw - spacing, ''left'')
             else if pos = ''right'' then
               (r_top targetRect + (r_height targetRect / 2) - (ch / 2),
                r_right targetRect + spacing, ''right'')
             else
               (r_bottom targetRect + spacing,
                r_left targetRect + (r_width targetRect / 2) - (cw / 2), ''bottom''));
          viewportWidth = fst viewport; viewportHeight = snd viewport;
          left1 = (if left0 < spacing then spacing else left0);
          left2 = (if left1 + cw > viewportWidth - spacing
                   then viewportWidth - cw - spacing else left1);
          top1 = (if top0 < spacing then spacing else top0);
          top2 = (if top1 + ch > viewportHeight - spacing
                  then viewportHeight - ch - spacing else top1)
      in (top2, left2, side))"

definition positionCallout :: "element \<Rightarrow> string \<Rightarrow> state \<Rightarrow> state" where
  "positionCallout el pos s =
     (case callout s of
        None \<Rightarrow> s\<lparr>uncaught := uncaught s + 1\<rparr>
      | Some c \<Rightarrow>
          (case place (erect el) (calloutSize s) pos (innerWidth s, innerHeight s) of
             (top', left', side) \<Rightarrow>
               s\<lparr>callout := Some (c\<lparr>c_data_position := Some side,
                                     c_style_top := Some top', c_style_left := Some left'\<rparr>)\<rparr>))"

subsection \<open>Ending and completing\<close>

definition endTutorial :: "state \<Rightarrow> state" where
  "endTutorial s =
     (let s1 = s\<lparr>isActive := False, bodyActive := False, highlighted := None\<rparr>;
          s2 = (case callout s1 of
                  None \<Rightarrow> s1
                | Some c \<Rightarrow> setTimeout CalloutRemove 300
                              (s1\<lparr>callout := Some (c\<lparr>c_active := False\<rparr>)\<rparr>))
      in (case overlay s2 of
            None \<Rightarrow> s2
          | Some ov \<Rightarrow> setTimeout OverlayRemove 300
                         (s2\<lparr>overlay := Some (ov\<lparr>ov_active := False\<rparr>)\<rparr>)))"

definition showCompletionMessage :: "state \<Rightarrow> state" where
  "showCompletionMessage s =
     (let m = nextId s;
          s1 = s\<lparr>messages := messages s @ [(m, False)], nextId := m + 1\<rparr>
      in setTimeout (MessageDismiss m) 4000 (setTimeout (MessageAddActive m) 10 s1))"

definition completion_request :: request where
  \<open>completion_request =
     \<lparr>url = ''/api/tutorial/complete'', http_method = ''POST'',
      headers = [(''Content-Type'', ''application/json'')],
      body = ''{"completed":true}''\<rparr>\<close>

definition completeTutorial :: "state \<Rightarrow> state" where
  "completeTutorial s =
     (let s1 = endTutorial s;
          s2 = s1\<lparr>localStorage := (localStorage s1)(''sclera_tutorial_completed'' \<mapsto> ''true'')\<rparr>;
          s3 = s2\<lparr>fetches := fetches s2 @ [completion_request]\<rparr>
      in showCompletionMessage s3)"

text \<open>
  The handler of \<open>.catch\<close> on the promise of \<open>fetch\<close>: a rejected request only writes a
  line to the console.
\<close>

definition fetchRejected :: "string \<Rightarrow> state \<Rightarrow> state" where
  "fetchRejected err s =
     s\<lparr>console := console s @ [''Could not save tutorial status: '' @ err]\<rparr>"

subsection \<open>Moving between steps\<close>

text \<open>
  \<open>this.callout.classList\<close> on a \<open>null\<close> callout throws a \<open>TypeError\<close>. Nothing follows the
  throwing statement in any caller, so the exception leaves the state as it is at the
  throw; it is counted in \<open>uncaught\<close>.
\<close>

definition nextStep :: "state \<Rightarrow> state" where
  "nextStep s =
     (if currentStep s < int (length (tutorialSteps s)) - 1 then
        (case callout s of
           None \<Rightarrow> s\<lparr>uncaught := uncaught s + 1\<rparr>
         | Some c \<Rightarrow> setTimeout ShowStepNext 300 (s\<lparr>callout := Some (c\<lparr>c_active := False\<rparr>)\<rparr>))
      else completeTutorial s)"

definition previousStep :: "state \<Rightarrow> state" where
  "previousStep s =
     (if currentStep s > 0 then
        (case callout s of
           None \<Rightarrow> s\<lparr>uncaught := uncaught s + 1\<rparr>
         | Some c \<Rightarrow> setTimeout ShowStepPrev 300 (s\<lparr>callout := Some (c\<lparr>c_active := False\<rparr>)\<rparr>))
      else s)"

definition render :: "step \<Rightarrow> int \<Rightarrow> nat \<Rightarrow> callout_el \<Rightarrow> callout_el" where
  "render st stepIndex n c =
     c\<lparr>c_title := title st, c_description := description st,
       c_current_step := stepIndex + 1, c_total_steps := n,
       c_fill_width := Some (((real_of_int stepIndex + 1) / real n) * 100),
       c_prev_disabled := (stepIndex = 0),
       c_prev_opacity := (if stepIndex = 0 then ''0.5'' else ''1''),
       c_next_text := (if stepIndex = int n - 1 then ''Finish'' else ''Next'')\<rparr>"

definition showStep :: "int \<Rightarrow> state \<Rightarrow> state" where
  "showStep stepIndex s =
     (if stepIndex < 0 \<or> stepIndex \<ge> int (length (tutorialSteps s)) then endTutorial s
      else
        let s1 = s\<lparr>currentStep := stepIndex\<rparr>;
            st = tutorialSteps s1 ! nat stepIndex
        in (case querySelector s1 (target st) of
              None \<Rightarrow> nextStep s1
            | Some targetElement \<Rightarrow>
                (case callout s1 of
                   None \<Rightarrow> s1\<lparr>uncaught := uncaught s1 + 1\<rparr>
                 | Some c \<Rightarrow>
                     let s2 = s1\<lparr>callout := Some (render st stepIndex (length (tutorialSteps s1)) c)\<rparr>;
                         s3 = highlightElement targetElement st s2;
                         s4 = positionCallout targetElement (position st) s3;
                         s5 = s4\<lparr>scrolledTo := Some (eid targetElement)\<rparr>
                     in s5\<lparr>callout := map_option (\<lambda>c. c\<lparr>c_active := True\<rparr>) (callout s5)\<rparr>)))"

definition skipTutorial :: "state \<Rightarrow> state" where
  "skipTutorial s =
     (let s1 = (case modal s of
                  None \<Rightarrow> s
                | Some a \<Rightarrow> setTimeout ModalRemove 300 (s\<lparr>modal := Some False\<rparr>))
      in s1\<lparr>localStorage := (localStorage s1)(''sclera_tutorial_skipped'' \<mapsto> ''true'')\<rparr>)"

definition restartTutorial :: "state \<Rightarrow> state" where
  "restartTutorial s =
     startTutorial
       (s\<lparr>localStorage := (localStorage s)(''sclera_tutorial_completed'' := None,
                                              ''sclera_tutorial_skipped'' := None),
          hasCompletedTutorial := False\<rparr>)"

subsection \<open>The event loop\<close>

text \<open>
  What each queued callback does when it runs. The callbacks of \<open>nextStep\<close> and
  \<open>previousStep\<close> read \<open>this.currentStep\<close> when they run, not when they are queued; those
  of \<open>endTutorial\<close> and \<open>createOverlay\<close> read \<open>this.callout\<close> and \<open>this.overlay\<close> when they
  run.
\<close>

fun run_action :: "action \<Rightarrow> state \<Rightarrow> state" where
  "run_action StartTutorial s = startTutorial s"
| "run_action ShowWelcomeModal s = showWelcomeModal s"
| "run_action ModalAddActive s = s\<lparr>modal := map_option (\<lambda>a. True) (modal s)\<rparr>"
| "run_action ModalRemove s = s\<lparr>modal := None\<rparr>"
| "run_action OverlayAddActive s =
     (case overlay s of
        None \<Rightarrow> s\<lparr>uncaught := uncaught s + 1\<rparr>
      | Some ov \<Rightarrow> s\<lparr>overlay := Some (ov\<lparr>ov_active := True\<rparr>)\<rparr>)"
| "run_action ShowStep0 s = showStep 0 s"
| "run_action ShowStepNext s = showStep (currentStep s + 1) s"
| "run_action ShowStepPrev s = showStep (currentStep s - 1) s"
| "run_action CalloutRemove s =
     (case callout s of
        None \<Rightarrow> s\<lparr>uncaught := uncaught s + 1\<rparr>
      | Some c \<Rightarrow> s\<lparr>callout := Some (c\<lparr>c_attached := False\<rparr>)\<rparr>)"
| "run_action OverlayRemove s =
     (case overlay s of
        None \<Rightarrow> s\<lparr>uncaught := uncaught s + 1\<rparr>
      | Some ov \<Rightarrow> s\<lparr>overlay := Some (ov\<lparr>ov_attached := False\<rparr>)\<rparr>)"
| "run_action (MessageAddActive m) s =
     s\<lparr>messages := map (\<lambda>(k, a). if k = m then (k, True) else (k, a)) (messages s)\<rparr>"
| "run_action (MessageDismiss m) s =
     setTimeout (MessageRemove m) 300
       (s\<lparr>messages := map (\<lambda>(k, a). if k = m then (k, False) else (k, a)) (messages s)\<rparr>)"
| "run_action (MessageRemove m) s = s\<lparr>messages := filter (\<lambda>(k, a). k \<noteq> m) (messages s)\<rparr>"

text \<open>\<open>fire k\<close> runs the \<open>k\<close>-th pending callback; \<open>tick\<close> runs the one that is due first.\<close>

definition fire :: "nat \<Rightarrow> state \<Rightarrow> state" where
  "fire k s =
     (if k < length (timers s)
      then run_action (snd (timers s ! k))
             (s\<lparr>timers := take k (timers s) @ drop (Suc k) (timers s),
                now := max (now s) (fst (timers s ! k))\<rparr>)
      else s)"

definition tick :: "state \<Rightarrow> state" where
  "tick s = fire 0 s"

text \<open>
  \<open>settle\<close> lets the event loop run, with no further input, until no callback is pending.
  A callback may queue further callbacks, so the result is optional: \<open>None\<close> stands for a
  loop that never becomes idle.
\<close>

partial_function (option) settle :: "state \<Rightarrow> state option" where
  "settle s = (if timers s = [] then Some s else settle (tick s))"

text \<open>
  The states a page can reach: it is loaded, the user triggers a handler, a pending
  callback runs (in any order, which covers every timing), the page is laid out anew, or
  the completion request fails.
\<close>

inductive reachable :: "state \<Rightarrow> bool" where
  r_load: "reachable (constructor p)"
| r_start: "reachable s \<Longrightarrow> reachable (startTutorial s)"
| r_restart: "reachable s \<Longrightarrow> reachable (restartTutorial s)"
| r_skip: "reachable s \<Longrightarrow> reachable (skipTutorial s)"
| r_end: "reachable s \<Longrightarrow> reachable (endTutorial s)"
| r_next: "reachable s \<Longrightarrow> reachable (nextStep s)"
| r_prev: "reachable s \<Longrightarrow> reachable (previousStep s)"
| r_fire: "reachable s \<Longrightarrow> k < length (timers s) \<Longrightarrow> reachable (fire k s)"
| r_layout: "reachable s \<Longrightarrow>
     reachable (s\<lparr>querySelector := q, innerWidth := w, innerHeight := h, calloutSize := cs\<rparr>)"
| r_reject: "reachable s \<Longrightarrow> reachable (fetchRejected err s)"

text \<open>
  The operations as the user sees them: the handler runs and the event loop becomes idle
  before the next input.
\<close>

definition start :: "state \<Rightarrow> state option" where
  "start s = settle (startTutorial s)"

definition advance :: "state \<Rightarrow> state option" where
  "advance s = settle (nextStep s)"

definition retreat :: "state \<Rightarrow> state option" where
  "retreat s = settle (previousStep s)"

fun advance_n :: "nat \<Rightarrow> state \<Rightarrow> state option" where
  "advance_n 0 s = Some s"
| "advance_n (Suc n) s = (case advance s of None \<Rightarrow> None | Some s' \<Rightarrow> advance_n n s')"

text \<open>
  The state in which the \<open>showStep(0)\<close> queued by \<open>startTutorial\<close> runs, when the page
  was idle at the start: the welcome modal is gone and the overlay has faded in.
\<close>

definition started :: "state \<Rightarrow> state" where
  "started s =
     s\<lparr>modal := None, tutorialSteps := getTutorialSteps s, currentStep := 0, isActive := True,
       bodyActive := True, callout := Some initial_callout,
       overlay := Some \<lparr>ov_active = True, ov_attached = True\<rparr>,
       timers := [], now := now s + 500\<rparr>"

text \<open>
  What the callout shows: title, the two numbers of ``Step \<open>i\<close> of \<open>n\<close>'', and whether it
  carries the class \<open>active\<close>, which makes it visible.
\<close>

definition display :: "state \<Rightarrow> (string \<times> int \<times> nat \<times> bool) option" where
  "display s =
     map_option (\<lambda>c. (c_title c, c_current_step c, c_total_steps c, c_active c)) (callout s)"

text \<open>
  The callbacks that only touch the presentation: they never call into the sequencer.
  \<open>weight\<close> counts the callbacks such a callback stands for, itself included.
\<close>

fun quiet :: "action \<Rightarrow> bool" where
  "quiet StartTutorial = False"
| "quiet ShowWelcomeModal = False"
| "quiet ShowStep0 = False"
| "quiet ShowStepNext = False"
| "quiet ShowStepPrev = False"
| "quiet _ = True"

fun weight :: "action \<Rightarrow> nat" where
  "weight (MessageDismiss m) = 2"
| "weight _ = 1"

text \<open>
  The current index points into the catalog, or is \<open>0\<close> while the catalog is empty.
\<close>

definition index_ok :: "state \<Rightarrow> bool" where
  "index_ok s \<longleftrightarrow>
     0 \<le> currentStep s \<and>
     (currentStep s < int (length (tutorialSteps s)) \<or> tutorialSteps s = [] \<and> currentStep s = 0)"

subsection \<open>Example pages\<close>

text \<open>
  The dashboard of a returning student on which every selector of the catalog finds an
  element, the same page without the streak tile (the target of the second step), and the
  dashboard of another account type.
\<close>

definition tile :: element where
  "tile = \<lparr>eid = 7, erect = \<lparr>r_top = 100, r_left = 100, r_width = 200, r_height = 50\<rparr>\<rparr>"

definition student_page :: page where
  "student_page =
     \<lparr>p_localStorage = [''sclera_visited'' \<mapsto> ''true''], p_search = [],
      p_accountType = Some ''student'',
      p_querySelector = (\<lambda>sel. Some tile),
      p_innerWidth = 1280, p_innerHeight = 720, p_calloutSize = (320, 180)\<rparr>"


definition teacher_page :: page where
  "teacher_page = student_page\<lparr>p_accountType := Some ''teacher''\<rparr>"

text \<open>A first visit through a link that carries \<open>tutorial=start\<close>.\<close>

definition linked_page :: page where
  "linked_page =
     student_page\<lparr>p_localStorage := Map.empty, p_search := [(''tutorial'', ''start'')]\<rparr>"





section \<open>Result aggregator (functions/index.js)\<close>

text \<open>
  The handler reads \<open>users/{userId}\<close> and writes, in one batch,
  \<open>classes/{classId}/class_summary/latest\<close> for every class of the user. The store is
  modelled by the user documents, keyed by \<open>userId\<close>, and the summary documents, keyed by
  \<open>classId\<close> (the path is fixed by it). \<open>class_ids\<close> and \<open>percentage\<close> are optional
  fields.
\<close>

datatype fvalue = Num real | Timestamp nat | Str string

type_synonym doc = "string \<rightharpoonup> fvalue"

record user_doc =
  class_ids :: "string list option"

record result_doc =
  percentage :: "real option"

record firestore =
  users :: "string \<rightharpoonup> user_doc"
  summaries :: "string \<rightharpoonup> doc"

text \<open>The field values of \<open>admin.firestore.FieldValue\<close> used by the handler.\<close>

datatype transform = Increment real | ServerTimestamp

text \<open>\<open>batch.set(ref, data, { merge: true })\<close>: the class and the fields to merge.\<close>

record set_op =
  w_class :: string
  w_data :: "(string \<times> transform) list"

primrec batch_sets :: "result_doc \<Rightarrow> string list \<Rightarrow> set_op list" where
  "batch_sets result [] = []"
| "batch_sets result (classId # classIds) =
     \<lparr>w_class = classId,
      w_data = [(''total_assessments'', Increment 1),
                (''total_score_sum'',
                 Increment (case percentage result of None \<Rightarrow> 0 | Some p \<Rightarrow> p)),
                (''last_updated'', ServerTimestamp)]\<rparr>
     # batch_sets result classIds"

text \<open>
  The batch the handler commits; \<open>None\<close> when it returns before creating one.
\<close>

definition onResultCreated :: "firestore \<Rightarrow> result_doc \<Rightarrow> string \<Rightarrow> set_op list option" where
  "onResultCreated db result userId =
     (case users db userId of
        None \<Rightarrow> None
      | Some userData \<Rightarrow>
          let classIds = (case class_ids userData of None \<Rightarrow> [] | Some cs \<Rightarrow> cs)
          in if length classIds = 0 then None else Some (batch_sets result classIds))"

text \<open>
  The store's side of a merge: \<open>increment\<close> adds to a numeric field and otherwise sets
  the field to its operand, \<open>serverTimestamp\<close> writes the time of the commit, a missing
  document is created, and fields not named are kept. The writes of a batch apply in
  order.
\<close>

definition apply_transform :: "nat \<Rightarrow> fvalue option \<Rightarrow> transform \<Rightarrow> fvalue" where
  "apply_transform time old t =
     (case t of
        Increment d \<Rightarrow> (case old of Some (Num n) \<Rightarrow> Num (n + d) | _ \<Rightarrow> Num d)
      | ServerTimestamp \<Rightarrow> Timestamp time)"

fun merge_fields :: "nat \<Rightarrow> (string \<times> transform) list \<Rightarrow> doc \<Rightarrow> doc" where
  "merge_fields time [] d = d"
| "merge_fields time ((f, t) # fs) d = merge_fields time fs (d(f \<mapsto> apply_transform time (d f) t))"

definition apply_write :: "nat \<Rightarrow> set_op \<Rightarrow> firestore \<Rightarrow> firestore" where
  "apply_write time w db =
     db\<lparr>summaries := (summaries db)(w_class w \<mapsto>
          merge_fields time (w_data w)
            (case summaries db (w_class w) of None \<Rightarrow> Map.empty | Some d \<Rightarrow> d))\<rparr>"

fun commit :: "nat \<Rightarrow> set_op list \<Rightarrow> firestore \<Rightarrow> firestore" where
  "commit time [] db = db"
| "commit time (w # ws) db = commit time ws (apply_write time w db)"

text \<open>The store after one invocation of the handler at server time \<open>time\<close>.\<close>

definition handle_result :: "nat \<Rightarrow> firestore \<Rightarrow> result_doc \<Rightarrow> string \<Rightarrow> firestore" where
  "handle_result time db result userId =
     (case onResultCreated db result userId of None \<Rightarrow> db | Some ws \<Rightarrow> commit time ws db)"

definition num_field :: "doc option \<Rightarrow> string \<Rightarrow> real" where
  "num_field d f = (case d of None \<Rightarrow> 0 | Some m \<Rightarrow> (case m f of Some (Num n) \<Rightarrow> n | _ \<Rightarrow> 0))"

text \<open>
  The upsert in the words of the specification, to compare the committed batch with: the
  two counters grow by \<open>1\<close> and by the percentage, counting an absent or non-numeric
  field as \<open>0\<close>, \<open>last_updated\<close> becomes the server time, and the other fields stay.
\<close>

definition upsert_summary :: "nat \<Rightarrow> real \<Rightarrow> doc option \<Rightarrow> doc option" where
  "upsert_summary time p d0 =
     Some ((case d0 of None \<Rightarrow> Map.empty | Some d \<Rightarrow> d)
       (''total_assessments'' \<mapsto> Num (num_field d0 ''total_assessments'' + 1),
        ''total_score_sum'' \<mapsto> Num (num_field d0 ''total_score_sum'' + p),
        ''last_updated'' \<mapsto> Timestamp time))"

text \<open>
  A store with one student in two classes, one of which has a summary already; the
  result of an exam with \<open>80\<close> percent, and one without a percentage.
\<close>

definition demo_db :: firestore where
  "demo_db =
     \<lparr>users = [''ada'' \<mapsto> \<lparr>class_ids = Some [''c1'', ''c2'']\<rparr>,
               ''bob'' \<mapsto> \<lparr>class_ids = Some []\<rparr>,
               ''eve'' \<mapsto> \<lparr>class_ids = None\<rparr>],
      summaries = [''c1'' \<mapsto> [''total_assessments'' \<mapsto> Num 4,
                                 ''total_score_sum'' \<mapsto> Num 250,
                                 ''teacher'' \<mapsto> Str ''kay'']]\<rparr>"

definition demo_result :: result_doc where
  "demo_result = \<lparr>percentage = Some 80\<rparr>"

section \<open>Properties of the walkthrough\<close>

subsection \<open>Timers and the idle loop\<close>

lemma setTimeout_fields:
  "currentStep (setTimeout a d s) = currentStep s"
  "tutorialSteps (setTimeout a d s) = tutorialSteps s"
  "isActive (setTimeout a d s) = isActive s"
  "callout (setTimeout a d s) = callout s"
  "overlay (setTimeout a d s) = overlay s"
  "localStorage (setTimeout a d s) = localStorage s"
  "querySelector (setTimeout a d s) = querySelector s"
  "fetches (setTimeout a d s) = fetches s"
  "now (setTimeout a d s) = now s"
  "timers (setTimeout a d s) = enqueue (now s + d, a) (timers s)"
  by (simp_all add: setTimeout_def)

lemma set_enqueue: "set (enqueue t ts) = insert t (set ts)"
  by (induction ts) auto

lemma weight_enqueue:
  "sum_list (map (\<lambda>t. weight (snd t)) (enqueue t ts))
     = weight (snd t) + sum_list (map (\<lambda>t. weight (snd t)) ts)"
  by (induction ts) auto

lemma settle_idle: "timers s = [] \<Longrightarrow> settle s = Some s"
  by (subst settle.simps) simp

lemma settle_step: "timers s \<noteq> [] \<Longrightarrow> settle s = settle (tick s)"
  by (subst settle.simps) simp

lemma tick_Cons:
  "timers s = (d, a) # ts \<Longrightarrow> tick s = run_action a (s\<lparr>timers := ts, now := max (now s) d\<rparr>)"
  by (simp add: tick_def fire_def drop_Suc)

lemma tick_case:
  "tick s = (case timers s of [] \<Rightarrow> s
             | t # ts \<Rightarrow> run_action (snd t) (s\<lparr>timers := ts, now := max (now s) (fst t)\<rparr>))"
  by (cases "timers s") (simp_all add: tick_def fire_def drop_Suc)

text \<open>A callback of the presentation leaves the sequencer and what it persisted alone.\<close>

lemma run_action_quiet:
  assumes "quiet a"
  shows "currentStep (run_action a s) = currentStep s"
    and "isActive (run_action a s) = isActive s"
    and "tutorialSteps (run_action a s) = tutorialSteps s"
    and "localStorage (run_action a s) = localStorage s"
    and "fetches (run_action a s) = fetches s"
    and "querySelector (run_action a s) = querySelector s"
    and "display (run_action a s) = display s"
    and "timers (run_action a s) =
           (case a of MessageDismiss m \<Rightarrow> enqueue (now s + 300, MessageRemove m) (timers s)
            | _ \<Rightarrow> timers s)"
  using assms
  by (cases a; simp add: setTimeout_def display_def split: option.split)+

text \<open>
  With only such callbacks pending the loop becomes idle: each one queues at most the
  removal of a banner, so the total weight of the queue decreases.
\<close>

lemma settle_quiet:
  assumes "\<forall>t \<in> set (timers s). quiet (snd t)"
  shows "\<exists>s'. settle s = Some s' \<and> timers s' = [] \<and> currentStep s' = currentStep s
           \<and> isActive s' = isActive s \<and> tutorialSteps s' = tutorialSteps s
           \<and> localStorage s' = localStorage s \<and> fetches s' = fetches s
           \<and> querySelector s' = querySelector s \<and> display s' = display s"
  using assms
proof (induction "sum_list (map (\<lambda>t. weight (snd t)) (timers s))" arbitrary: s rule: less_induct)
  case less
  show ?case
  proof (cases "timers s")
    case Nil
    then show ?thesis by (simp add: settle_idle)
  next
    case (Cons t ts)
    obtain d a where t: "t = (d, a)" by (cases t)
    let ?s0 = "s\<lparr>timers := ts, now := max (now s) d\<rparr>"
    have pa: "quiet a" and pts: "\<forall>u \<in> set ts. quiet (snd u)"
      using less.prems Cons t by auto
    have tk: "tick s = run_action a ?s0" using Cons t by (simp add: tick_Cons)
    have tm: "timers (tick s) =
        (case a of MessageDismiss m \<Rightarrow> enqueue (now ?s0 + 300, MessageRemove m) ts | _ \<Rightarrow> ts)"
      using run_action_quiet(8)[OF pa, of ?s0] tk by (cases a) simp_all
    have w: "sum_list (map (\<lambda>t. weight (snd t)) (timers (tick s)))
             < sum_list (map (\<lambda>t. weight (snd t)) (timers s))"
      using Cons t pa by (cases a) (simp_all add: tm weight_enqueue)
    have p: "\<forall>u \<in> set (timers (tick s)). quiet (snd u)"
      using pts pa by (cases a) (auto simp: tm set_enqueue)
    from less.hyps[OF w p] obtain s' where
      s': "settle (tick s) = Some s'" "timers s' = []" "currentStep s' = currentStep (tick s)"
        "isActive s' = isActive (tick s)" "tutorialSteps s' = tutorialSteps (tick s)"
        "localStorage s' = localStorage (tick s)" "fetches s' = fetches (tick s)"
        "querySelector s' = querySelector (tick s)" "display s' = display (tick s)"
      by blast
    have "settle s = Some s'" using s'(1) Cons by (simp add: settle_step)
    moreover have "display ?s0 = display s" by (simp add: display_def)
    ultimately show ?thesis
      using s' run_action_quiet[OF pa, of ?s0] tk by simp
  qed
qed

subsection \<open>The index stays inside the catalog\<close>

lemma endTutorial_index:
  "currentStep (endTutorial s) = currentStep s" "tutorialSteps (endTutorial s) = tutorialSteps s"
  by (simp_all add: endTutorial_def Let_def setTimeout_fields split: option.split)

lemma completeTutorial_index:
  "currentStep (completeTutorial s) = currentStep s"
  "tutorialSteps (completeTutorial s) = tutorialSteps s"
  by (simp_all add: completeTutorial_def showCompletionMessage_def Let_def setTimeout_fields
      endTutorial_index)

lemma nextStep_index:
  "currentStep (nextStep s) = currentStep s" "tutorialSteps (nextStep s) = tutorialSteps s"
  by (simp_all add: nextStep_def setTimeout_fields completeTutorial_index split: option.split)

lemma previousStep_index:
  "currentStep (previousStep s) = currentStep s"
  "tutorialSteps (previousStep s) = tutorialSteps s"
  by (simp_all add: previousStep_def setTimeout_fields split: option.split)

lemma positionCallout_index:
  "currentStep (positionCallout el pos s) = currentStep s"
  "tutorialSteps (positionCallout el pos s) = tutorialSteps s"
  by (simp_all add: positionCallout_def split: option.split prod.split)

lemma showStep_steps: "tutorialSteps (showStep i s) = tutorialSteps s"
  by (simp add: showStep_def Let_def endTutorial_index nextStep_index positionCallout_index
      highlightElement_def split: option.split)

lemma showStep_current:
  "currentStep (showStep i s) =
     (if i < 0 \<or> i \<ge> int (length (tutorialSteps s)) then currentStep s else i)"
  by (simp add: showStep_def Let_def endTutorial_index nextStep_index positionCallout_index
      highlightElement_def split: option.split)

lemma startTutorial_index: "currentStep (startTutorial s) = 0"
  by (simp add: startTutorial_def Let_def setTimeout_fields createCallout_def createOverlay_def
      split: option.split)

lemma run_action_index: "index_ok s \<Longrightarrow> index_ok (run_action a s)"
  unfolding index_ok_def
  by (cases a)
     (auto simp: startTutorial_index showStep_steps showStep_current showWelcomeModal_def
        setTimeout_fields split: option.split)

lemma fire_index: "index_ok s \<Longrightarrow> index_ok (fire k s)"
proof (cases "k < length (timers s)")
  case True
  assume "index_ok s"
  then have "index_ok (s\<lparr>timers := take k (timers s) @ drop (Suc k) (timers s),
                        now := max (now s) (fst (timers s ! k))\<rparr>)"
    by (simp add: index_ok_def)
  then show ?thesis using True by (simp add: fire_def run_action_index)
next
  case False
  assume "index_ok s"
  then show ?thesis using False by (simp add: fire_def)
qed

lemma constructor_index: "currentStep (constructor p) = 0" "tutorialSteps (constructor p) = []"
  by (simp_all add: constructor_def init_def fresh_def Let_def setTimeout_fields)

lemma reachable_index_ok: "reachable s \<Longrightarrow> index_ok s"
proof (induction rule: reachable.induct)
  case (r_load p)
  then show ?case by (simp add: index_ok_def constructor_index)
next
  case (r_start s)
  then show ?case by (simp add: index_ok_def startTutorial_index)
next
  case (r_restart s)
  then show ?case by (simp add: index_ok_def restartTutorial_def startTutorial_index)
next
  case (r_skip s)
  then show ?case
    by (simp add: index_ok_def skipTutorial_def Let_def setTimeout_fields split: option.split)
next
  case (r_end s)
  then show ?case by (simp add: index_ok_def endTutorial_index)
next
  case (r_next s)
  then show ?case by (simp add: index_ok_def nextStep_index)
next
  case (r_prev s)
  then show ?case by (simp add: index_ok_def previousStep_index)
next
  case (r_fire s k)
  then show ?case by (simp add: fire_index)
next
  case (r_layout s q w h cs)
  then show ?case by (simp add: index_ok_def)
next
  case (r_reject s err)
  then show ?case by (simp add: index_ok_def fetchRejected_def)
qed

subsection \<open>Starting from an idle page\<close>

lemma startTutorial_idle:
  "timers s = [] \<Longrightarrow> startTutorial s =
     s\<lparr>modal := map_option (\<lambda>a. False) (modal s),
       tutorialSteps := getTutorialSteps s, currentStep := 0, isActive := True,
       bodyActive := True,
       overlay := Some \<lparr>ov_active = False, ov_attached = True\<rparr>,
       callout := Some initial_callout,
       timers := (case modal s of
          None \<Rightarrow> [(now s + 10, OverlayAddActive), (now s + 500, ShowStep0)]
        | Some a \<Rightarrow> [(now s + 10, OverlayAddActive), (now s + 300, ModalRemove),
                      (now s + 500, ShowStep0)])\<rparr>"
  by (cases "modal s")
     (simp_all add: startTutorial_def Let_def setTimeout_def createOverlay_def createCallout_def
        getTutorialSteps_def)

lemma constructor_returning:
  "p_localStorage p ''sclera_visited'' = Some ''true'' \<Longrightarrow>
   map_of (p_search p) ''tutorial'' \<noteq> Some ''start'' \<Longrightarrow>
   constructor p =
     (fresh p)\<lparr>hasCompletedTutorial := checkTutorialStatus (fresh p), listening := True\<rparr>"
  by (simp add: constructor_def init_def fresh_def Let_def checkTutorialStatus_def)

lemma teacher_idle:
  "timers (constructor teacher_page) = []"
  "getTutorialSteps (constructor teacher_page) = []"
  "modal (constructor teacher_page) = None"
  by (simp_all add: constructor_returning teacher_page_def student_page_def fresh_def
      getTutorialSteps_def)

lemma student_idle:
  "timers (constructor student_page) = []"
  "getTutorialSteps (constructor student_page) = student_steps"
  "modal (constructor student_page) = None"
  "querySelector (constructor student_page) = (\<lambda>sel. Some tile)"
  by (simp_all add: constructor_returning student_page_def fresh_def getTutorialSteps_def)

lemma length_student_steps: "length student_steps = 20"
  by (simp add: student_steps_def)

subsection \<open>Showing a step, skipping a step\<close>

lemma positionCallout_fields:
  "timers (positionCallout el pos s) = timers s"
  "isActive (positionCallout el pos s) = isActive s"
  "localStorage (positionCallout el pos s) = localStorage s"
  "fetches (positionCallout el pos s) = fetches s"
  "querySelector (positionCallout el pos s) = querySelector s"
  by (simp_all add: positionCallout_def split: option.split prod.split)

lemma positionCallout_display: "display (positionCallout el pos s) = display s"
  by (simp add: positionCallout_def display_def split: option.split prod.split)

lemma showStep_found:
  assumes "0 \<le> i" "i < int (length (tutorialSteps s))"
    and "querySelector s (target (tutorialSteps s ! nat i)) = Some el"
    and "callout s = Some c"
  shows "timers (showStep i s) = timers s"
    and "currentStep (showStep i s) = i"
    and "tutorialSteps (showStep i s) = tutorialSteps s"
    and "querySelector (showStep i s) = querySelector s"
    and "isActive (showStep i s) = isActive s"
    and "localStorage (showStep i s) = localStorage s"
    and "fetches (showStep i s) = fetches s"
    and "display (showStep i s)
           = Some (title (tutorialSteps s ! nat i), i + 1, length (tutorialSteps s), True)"
  using assms
  by (simp_all add: showStep_def Let_def highlightElement_def positionCallout_def display_def
      render_def split: prod.split)

lemma showStep_missing:
  assumes "0 \<le> i" "i < int (length (tutorialSteps s))"
    and "querySelector s (target (tutorialSteps s ! nat i)) = None"
  shows "showStep i s = nextStep (s\<lparr>currentStep := i\<rparr>)"
  using assms by (simp add: showStep_def Let_def)

lemma nextStep_schedule:
  assumes "currentStep s < int (length (tutorialSteps s)) - 1" "callout s = Some c"
  shows "nextStep s = setTimeout ShowStepNext 300 (s\<lparr>callout := Some (c\<lparr>c_active := False\<rparr>)\<rparr>)"
  using assms by (simp add: nextStep_def)

text \<open>
  From an idle state, \<open>showStep i\<close> over a run of steps without target, up to the first
  step \<open>j\<close> whose target exists: the loop becomes idle with step \<open>j\<close> shown.
\<close>

lemma skip_chain:
  assumes "timers s = []" "callout s = Some c" "0 \<le> i" "i \<le> j"
    and "j < int (length (tutorialSteps s))"
    and "\<forall>k. i \<le> k \<and> k < j \<longrightarrow> querySelector s (target (tutorialSteps s ! nat k)) = None"
    and "querySelector s (target (tutorialSteps s ! nat j)) = Some el"
  shows "\<exists>s'. settle (showStep i s) = Some s' \<and> timers s' = [] \<and> currentStep s' = j
           \<and> display s' = Some (title (tutorialSteps s ! nat j), j + 1, length (tutorialSteps s), True)
           \<and> tutorialSteps s' = tutorialSteps s \<and> querySelector s' = querySelector s
           \<and> isActive s' = isActive s \<and> localStorage s' = localStorage s
           \<and> fetches s' = fetches s"
  using assms
proof (induction "nat (j - i)" arbitrary: i s c)
  case 0
  then have ij: "i = j" by simp
  from showStep_found [OF "0.prems"(3) _ _ "0.prems"(2), of el] "0.prems" ij
  show ?case by (simp add: settle_idle)
next
  case (Suc n)
  then have lt: "i < j" by simp
  let ?s1 = "s\<lparr>currentStep := i\<rparr>"
  let ?s2 = "s\<lparr>currentStep := i, callout := Some (c\<lparr>c_active := False\<rparr>), timers := [],
               now := now s + 300\<rparr>"
  have miss: "querySelector s (target (tutorialSteps s ! nat i)) = None"
    using Suc.prems lt by simp
  have "showStep i s = nextStep ?s1"
    using showStep_missing Suc.prems lt miss by simp
  also have "\<dots> = setTimeout ShowStepNext 300 (?s1\<lparr>callout := Some (c\<lparr>c_active := False\<rparr>)\<rparr>)"
    using Suc.prems lt by (intro nextStep_schedule) simp_all
  finally have sh: "showStep i s
      = setTimeout ShowStepNext 300 (?s1\<lparr>callout := Some (c\<lparr>c_active := False\<rparr>)\<rparr>)" .
  have tk: "tick (showStep i s) = showStep (i + 1) ?s2"
    using Suc.prems by (simp add: sh tick_case setTimeout_def)
  have "timers (showStep i s) \<noteq> []"
    using Suc.prems by (simp add: sh setTimeout_def)
  then have st: "settle (showStep i s) = settle (showStep (i + 1) ?s2)"
    using tk by (simp add: settle_step)
  have n: "n = nat (j - (i + 1))" using Suc.hyps(2) by simp
  have "\<exists>s'. settle (showStep (i + 1) ?s2) = Some s' \<and> timers s' = [] \<and> currentStep s' = j
           \<and> display s' = Some (title (tutorialSteps ?s2 ! nat j), j + 1, length (tutorialSteps ?s2), True)
           \<and> tutorialSteps s' = tutorialSteps ?s2 \<and> querySelector s' = querySelector ?s2
           \<and> isActive s' = isActive ?s2 \<and> localStorage s' = localStorage ?s2
           \<and> fetches s' = fetches ?s2"
    using Suc.prems lt by (intro Suc.hyps(1) [OF n, of ?s2 "c\<lparr>c_active := False\<rparr>"]) simp_all
  then show ?case using st by simp
qed

subsection \<open>Placement\<close>





subsection \<open>Start, advance, complete\<close>

lemma display_Some: "display s = Some x \<Longrightarrow> \<exists>c. callout s = Some c"
  by (cases "callout s") (simp_all add: display_def)


lemma start_unfold:
  assumes "timers s = []"
  shows "start s = settle (showStep 0 (started s))"
proof (cases "modal s")
  case None
  then show ?thesis using assms
    by (simp add: start_def startTutorial_idle settle_step tick_case started_def)
next
  case (Some a)
  have "s\<lparr>tutorialSteps := getTutorialSteps s, currentStep := 0, isActive := True,
          bodyActive := True, callout := Some initial_callout,
          overlay := Some \<lparr>ov_active = True, ov_attached = True\<rparr>,
          modal := None, timers := [], now := now s + 500\<rparr> = started s"
    by (rule state.equality) (simp_all add: started_def)
  then show ?thesis using assms Some
    by (simp add: start_def startTutorial_idle settle_step tick_case)
qed

lemma start_shows_first_found:
  assumes "timers s = []" "0 \<le> j" "j < int (length (getTutorialSteps s))"
    and "\<forall>k. 0 \<le> k \<and> k < j \<longrightarrow> querySelector s (target (getTutorialSteps s ! nat k)) = None"
    and "querySelector s (target (getTutorialSteps s ! nat j)) = Some el"
  shows "\<exists>s'. start s = Some s' \<and> timers s' = [] \<and> currentStep s' = j
           \<and> display s' = Some (title (getTutorialSteps s ! nat j), j + 1,
                                 length (getTutorialSteps s), True)
           \<and> tutorialSteps s' = getTutorialSteps s \<and> querySelector s' = querySelector s
           \<and> isActive s' \<and> localStorage s' = localStorage s \<and> fetches s' = fetches s"
proof -
  let ?s0 = "started s"
  have f: "timers ?s0 = []" "callout ?s0 = Some initial_callout"
    "tutorialSteps ?s0 = getTutorialSteps s" "querySelector ?s0 = querySelector s"
    "isActive ?s0" "localStorage ?s0 = localStorage s" "fetches ?s0 = fetches s"
    by (simp_all add: started_def)
  have "\<exists>s'. settle (showStep 0 ?s0) = Some s' \<and> timers s' = [] \<and> currentStep s' = j
           \<and> display s' = Some (title (tutorialSteps ?s0 ! nat j), j + 1, length (tutorialSteps ?s0), True)
           \<and> tutorialSteps s' = tutorialSteps ?s0 \<and> querySelector s' = querySelector ?s0
           \<and> isActive s' = isActive ?s0 \<and> localStorage s' = localStorage ?s0
           \<and> fetches s' = fetches ?s0"
    using assms f by (intro skip_chain [of ?s0 initial_callout 0 j el]) simp_all
  then show ?thesis using f by (simp add: start_unfold [OF assms(1)])
qed

lemma advance_found:
  assumes "timers s = []" "callout s = Some c" "0 \<le> currentStep s"
    and "currentStep s + 1 < int (length (tutorialSteps s))"
    and "querySelector s (target (tutorialSteps s ! nat (currentStep s + 1))) = Some el"
  shows "\<exists>s'. advance s = Some s' \<and> timers s' = [] \<and> currentStep s' = currentStep s + 1
           \<and> display s' = Some (title (tutorialSteps s ! nat (currentStep s + 1)),
                currentStep s + 2, length (tutorialSteps s), True)
           \<and> tutorialSteps s' = tutorialSteps s \<and> querySelector s' = querySelector s
           \<and> isActive s' = isActive s \<and> localStorage s' = localStorage s
           \<and> fetches s' = fetches s"
proof -
  let ?s2 = "s\<lparr>callout := Some (c\<lparr>c_active := False\<rparr>), timers := [], now := now s + 300\<rparr>"
  have n: "nextStep s = setTimeout ShowStepNext 300 (s\<lparr>callout := Some (c\<lparr>c_active := False\<rparr>)\<rparr>)"
    using assms by (intro nextStep_schedule) simp_all
  have "advance s = settle (showStep (currentStep s + 1) ?s2)"
    using assms(1) by (simp add: advance_def n setTimeout_def settle_step tick_case)
  moreover have "\<exists>s'. settle (showStep (currentStep s + 1) ?s2) = Some s' \<and> timers s' = []
           \<and> currentStep s' = currentStep s + 1
           \<and> display s' = Some (title (tutorialSteps ?s2 ! nat (currentStep s + 1)),
                currentStep s + 1 + 1, length (tutorialSteps ?s2), True)
           \<and> tutorialSteps s' = tutorialSteps ?s2 \<and> querySelector s' = querySelector ?s2
           \<and> isActive s' = isActive ?s2 \<and> localStorage s' = localStorage ?s2
           \<and> fetches s' = fetches ?s2"
    using assms
    by (intro skip_chain [of ?s2 "c\<lparr>c_active := False\<rparr>" "currentStep s + 1" "currentStep s + 1" el])
       auto
  ultimately show ?thesis by (simp add: add.commute)
qed

lemma advance_n_found:
  assumes "timers s = []" "callout s = Some c" "0 \<le> currentStep s"
    and "currentStep s + int n < int (length (tutorialSteps s))"
    and "\<forall>st \<in> set (tutorialSteps s). querySelector s (target st) \<noteq> None"
  shows "\<exists>s'. advance_n n s = Some s' \<and> timers s' = [] \<and> currentStep s' = currentStep s + int n
           \<and> callout s' \<noteq> None
           \<and> tutorialSteps s' = tutorialSteps s \<and> querySelector s' = querySelector s
           \<and> isActive s' = isActive s \<and> localStorage s' = localStorage s
           \<and> fetches s' = fetches s"
  using assms
proof (induction n arbitrary: s c)
  case 0
  then show ?case by simp
next
  case (Suc n)
  have "tutorialSteps s ! nat (currentStep s + 1) \<in> set (tutorialSteps s)"
    using Suc.prems by (intro nth_mem) simp
  then obtain el where el: "querySelector s (target (tutorialSteps s ! nat (currentStep s + 1))) = Some el"
    using Suc.prems(5) by blast
  from advance_found [OF Suc.prems(1,2,3) _ el] Suc.prems(4)
  obtain s1 where s1: "advance s = Some s1" "timers s1 = []" "currentStep s1 = currentStep s + 1"
    "display s1 = Some (title (tutorialSteps s ! nat (currentStep s + 1)),
                currentStep s + 2, length (tutorialSteps s), True)"
    "tutorialSteps s1 = tutorialSteps s" "querySelector s1 = querySelector s"
    "isActive s1 = isActive s" "localStorage s1 = localStorage s" "fetches s1 = fetches s"
    by auto
  from display_Some [OF s1(4)] obtain c1 where c1: "callout s1 = Some c1" by blast
  have "\<exists>s'. advance_n n s1 = Some s' \<and> timers s' = [] \<and> currentStep s' = currentStep s1 + int n
           \<and> callout s' \<noteq> None
           \<and> tutorialSteps s' = tutorialSteps s1 \<and> querySelector s' = querySelector s1
           \<and> isActive s' = isActive s1 \<and> localStorage s' = localStorage s1
           \<and> fetches s' = fetches s1"
    using Suc.prems s1 by (intro Suc.IH [OF s1(2) c1]) simp_all
  then show ?case using s1 by auto
qed

lemma completeTutorial_quiet:
  assumes "\<forall>t \<in> set (timers s). quiet (snd t)"
  shows "\<forall>t \<in> set (timers (completeTutorial s)). quiet (snd t)"
  using assms
  by (auto simp: completeTutorial_def endTutorial_def showCompletionMessage_def setTimeout_def
      Let_def set_enqueue split: option.split)

lemma advance_last:
  assumes "timers s = []" "\<not> currentStep s < int (length (tutorialSteps s)) - 1"
  shows "nextStep s = completeTutorial s"
    and "\<exists>s'. advance s = Some s' \<and> timers s' = [] \<and> currentStep s' = currentStep s
           \<and> \<not> isActive s' \<and> tutorialSteps s' = tutorialSteps s
           \<and> localStorage s' = (localStorage s)(''sclera_tutorial_completed'' \<mapsto> ''true'')
           \<and> fetches s' = fetches s @ [completion_request]"
proof -
  show n: "nextStep s = completeTutorial s" using assms by (simp add: nextStep_def)
  have q: "\<forall>t \<in> set (timers (completeTutorial s)). quiet (snd t)"
    using assms(1) by (intro completeTutorial_quiet) simp
  have c: "\<not> isActive (completeTutorial s)"
    "localStorage (completeTutorial s) = (localStorage s)(''sclera_tutorial_completed'' \<mapsto> ''true'')"
    "fetches (completeTutorial s) = fetches s @ [completion_request]"
    by (simp_all add: completeTutorial_def endTutorial_def showCompletionMessage_def setTimeout_def
      Let_def split: option.split)
  from settle_quiet [OF q] show "\<exists>s'. advance s = Some s' \<and> timers s' = [] \<and> currentStep s' = currentStep s
           \<and> \<not> isActive s' \<and> tutorialSteps s' = tutorialSteps s
           \<and> localStorage s' = (localStorage s)(''sclera_tutorial_completed'' \<mapsto> ''true'')
           \<and> fetches s' = fetches s @ [completion_request]"
    by (auto simp: advance_def n c completeTutorial_index)
qed

lemma student_start:
  "\<exists>s0. start (constructor student_page) = Some s0 \<and> timers s0 = [] \<and> currentStep s0 = 0
      \<and> display s0 = Some (title (student_steps ! 0), 1, 20, True)
      \<and> tutorialSteps s0 = student_steps \<and> querySelector s0 = (\<lambda>sel. Some tile)
      \<and> isActive s0 \<and> localStorage s0 = localStorage (constructor student_page)
      \<and> fetches s0 = fetches (constructor student_page)"
  using start_shows_first_found [of "constructor student_page" 0 tile]
  by (simp add: student_idle length_student_steps)





section \<open>Properties of the result aggregator\<close>

lemma apply_write_batch_op:
  "summaries (apply_write time
      \<lparr>w_class = x,
       w_data = [(''total_assessments'', Increment 1), (''total_score_sum'', Increment p),
                 (''last_updated'', ServerTimestamp)]\<rparr> db) c
   = (if c = x then upsert_summary time p (summaries db c) else summaries db c)"
  by (auto simp: apply_write_def upsert_summary_def apply_transform_def num_field_def
      split: option.split fvalue.split)

lemma apply_write_users: "users (apply_write time w db) = users db"
  by (simp add: apply_write_def)

lemma commit_users: "users (commit time ws db) = users db"
  by (induction ws arbitrary: db) (simp_all add: apply_write_users)

lemma commit_batch_sets:
  "summaries (commit time (batch_sets result cs) db) c
     = ((upsert_summary time (case percentage result of None \<Rightarrow> 0 | Some p \<Rightarrow> p))
          ^^ count_list cs c) (summaries db c)"
proof (induction cs arbitrary: db)
  case Nil
  then show ?case by simp
next
  case (Cons x xs)
  show ?case
    by (simp add: Cons.IH apply_write_batch_op funpow_swap1)
qed

lemma upsert_iterated:
  "0 < n \<Longrightarrow> \<exists>d. (upsert_summary time p ^^ n) d0 = Some d
     \<and> d ''total_assessments'' = Some (Num (num_field d0 ''total_assessments'' + real n))
     \<and> d ''total_score_sum'' = Some (Num (num_field d0 ''total_score_sum'' + real n * p))
     \<and> d ''last_updated'' = Some (Timestamp time)
     \<and> (\<forall>f. f \<noteq> ''total_assessments'' \<and> f \<noteq> ''total_score_sum'' \<and> f \<noteq> ''last_updated''
           \<longrightarrow> d f = (case d0 of None \<Rightarrow> None | Some m \<Rightarrow> m f))"
proof (induction n)
  case 0
  then show ?case by simp
next
  case (Suc n)
  show ?case
  proof (cases "n = 0")
    case True
    then show ?thesis
      by (simp add: upsert_summary_def split: option.split)
  next
    case False
    with Suc.IH obtain d where d: "(upsert_summary time p ^^ n) d0 = Some d"
      "d ''total_assessments'' = Some (Num (num_field d0 ''total_assessments'' + real n))"
      "d ''total_score_sum'' = Some (Num (num_field d0 ''total_score_sum'' + real n * p))"
      "d ''last_updated'' = Some (Timestamp time)"
      "\<forall>f. f \<noteq> ''total_assessments'' \<and> f \<noteq> ''total_score_sum'' \<and> f \<noteq> ''last_updated''
           \<longrightarrow> d f = (case d0 of None \<Rightarrow> None | Some m \<Rightarrow> m f)"
      by auto
    have "(upsert_summary time p ^^ Suc n) d0 = upsert_summary time p (Some d)"
      using d(1) by simp
    then show ?thesis
      using d(2-) by (simp add: upsert_summary_def [of _ _ "Some d"] num_field_def algebra_simps)
  qed
qed

lemma demo_db_facts:
  "users demo_db ''zoe'' = None"
  "users demo_db ''bob'' = Some \<lparr>class_ids = Some []\<rparr>"
  "users demo_db ''ada'' = Some \<lparr>class_ids = Some [''c1'', ''c2'']\<rparr>"
  "num_field (summaries demo_db ''c1'') ''total_assessments'' = 4"
  "num_field (summaries demo_db ''c1'') ''total_score_sum'' = 250"
  "num_field (summaries demo_db ''c2'') ''total_assessments'' = 0"
  "num_field (summaries demo_db ''c2'') ''total_score_sum'' = 0"
  "summaries demo_db ''c3'' = None"
  by (simp_all add: demo_db_def num_field_def)

lemma demo_db_teacher:
  "(case summaries demo_db ''c1'' of None \<Rightarrow> None | Some m \<Rightarrow> m ''teacher'') = Some (Str ''kay'')"
  by (simp add: demo_db_def)

subsection \<open>An empty catalog never shows the callout\<close>

lemma tick_idle: "timers s = [] \<Longrightarrow> (tick ^^ k) s = s"
  by (induction k) (simp_all add: tick_case)

lemma funpow_after: "(f ^^ (m + k)) x = (f ^^ k) ((f ^^ m) x)"
  by (simp add: funpow_add add.commute)

lemma empty_catalog_never_visible:
  assumes "timers s = []" and "getTutorialSteps s = []"
  shows "display ((tick ^^ n) (startTutorial s)) = Some ([], 1, 0, False)"
proof -
  let ?d = "Some ([] :: string, 1 :: int, 0 :: nat, False)"
  let ?s0 = "startTutorial s"
  have step: "\<And>x. display x = ?d \<Longrightarrow> timers x = [] \<Longrightarrow> display ((tick ^^ k) x) = ?d" for k
    by (simp add: tick_idle)
  show ?thesis
  proof (cases "modal s")
    case None
    have d: "display ?s0 = ?d" "display (tick ?s0) = ?d" "display (tick (tick ?s0)) = ?d"
      "display (tick (tick (tick ?s0))) = ?d" "display (tick (tick (tick (tick ?s0)))) = ?d"
      "timers (tick (tick (tick (tick ?s0)))) = []"
      using assms None
      by (simp_all add: startTutorial_idle tick_case showStep_def endTutorial_def setTimeout_def
          Let_def display_def initial_callout_def)
    have f: "(tick ^^ 4) ?s0 = tick (tick (tick (tick ?s0)))"
      by (simp add: eval_nat_numeral)
    have "n = 0 \<or> n = 1 \<or> n = 2 \<or> n = 3 \<or> (\<exists>k. n = 4 + k)" by presburger
    then consider "n = 0" | "n = 1" | "n = 2" | "n = 3" | k where "n = 4 + k" by blast
    then show ?thesis
    proof cases
      case 5
      then show ?thesis using d by (simp only: funpow_after f tick_idle)
    qed (use d in \<open>simp_all add: eval_nat_numeral\<close>)
  next
    case (Some a)
    have d: "display ?s0 = ?d" "display (tick ?s0) = ?d" "display (tick (tick ?s0)) = ?d"
      "display (tick (tick (tick ?s0))) = ?d" "display (tick (tick (tick (tick ?s0)))) = ?d"
      "display (tick (tick (tick (tick (tick ?s0))))) = ?d"
      "timers (tick (tick (tick (tick (tick ?s0))))) = []"
      using assms Some
      by (simp_all add: startTutorial_idle tick_case showStep_def endTutorial_def setTimeout_def
          Let_def display_def initial_callout_def)
    have f: "(tick ^^ 5) ?s0 = tick (tick (tick (tick (tick ?s0))))"
      by (simp add: eval_nat_numeral)
    have "n = 0 \<or> n = 1 \<or> n = 2 \<or> n = 3 \<or> n = 4 \<or> (\<exists>k. n = 5 + k)" by presburger
    then consider "n = 0" | "n = 1" | "n = 2" | "n = 3" | "n = 4" | k where "n = 5 + k" by blast
    then show ?thesis
    proof cases
      case 6
      then show ?thesis using d by (simp only: funpow_after f tick_idle)
    qed (use d in \<open>simp_all add: eval_nat_numeral\<close>)
  qed
qed

section \<open>The claims\<close>

text \<open>
  C1. Let the loop be idle with the callout created, the index at \<open>0\<close>, a catalog of
  \<open>N \<ge> 1\<close> steps, and an element for the target of every step. Then \<open>N - 1\<close> advances,
  each followed by the loop becoming idle, end on index \<open>N - 1\<close> with the tutorial as
  active as before. In that state \<open>nextStep\<close> is \<open>completeTutorial\<close>: one more advance
  leaves the index at \<open>N - 1\<close>, ends the tutorial, stores the completion flag and issues
  the completion request.
\<close>

theorem advance_to_last_then_complete:
  assumes "timers s = []" and "callout s \<noteq> None" and "currentStep s = 0"
    and "tutorialSteps s \<noteq> []"
    and "\<forall>st \<in> set (tutorialSteps s). querySelector s (target st) \<noteq> None"
  shows "\<exists>s'. advance_n (length (tutorialSteps s) - 1) s = Some s'
           \<and> currentStep s' = int (length (tutorialSteps s)) - 1
           \<and> isActive s' = isActive s
           \<and> nextStep s' = completeTutorial s'
           \<and> (\<exists>s''. advance s' = Some s''
                 \<and> currentStep s'' = int (length (tutorialSteps s)) - 1
                 \<and> \<not> isActive s''
                 \<and> localStorage s'' = (localStorage s)(''sclera_tutorial_completed'' \<mapsto> ''true'')
                 \<and> fetches s'' = fetches s @ [completion_request])"
proof -
  let ?n = "length (tutorialSteps s)"
  from assms(2) obtain c where c: "callout s = Some c" by blast
  have "\<exists>s'. advance_n (?n - 1) s = Some s' \<and> timers s' = []
           \<and> currentStep s' = currentStep s + int (?n - 1) \<and> callout s' \<noteq> None
           \<and> tutorialSteps s' = tutorialSteps s \<and> querySelector s' = querySelector s
           \<and> isActive s' = isActive s \<and> localStorage s' = localStorage s
           \<and> fetches s' = fetches s"
    using assms by (intro advance_n_found [OF assms(1) c]) (simp_all add: Suc_leI)
  then obtain s' where s': "advance_n (?n - 1) s = Some s'" "timers s' = []"
      "currentStep s' = currentStep s + int (?n - 1)" "tutorialSteps s' = tutorialSteps s"
      "isActive s' = isActive s" "localStorage s' = localStorage s" "fetches s' = fetches s"
    by blast
  have last: "currentStep s' = int ?n - 1"
    using s'(3) assms(3,4) by (simp add: of_nat_diff Suc_leI)
  then have nl: "\<not> currentStep s' < int (length (tutorialSteps s')) - 1"
    by (simp add: s'(4))
  from advance_last [OF s'(2) nl] s' last show ?thesis by auto
qed

text \<open>
  On the student's dashboard the started tutorial is such a state: nineteen advances
  reach the twentieth step, and the next one completes.
\<close>

theorem advance_to_last_then_complete_witness:
  "\<exists>s0 s' s''. start (constructor student_page) = Some s0
      \<and> timers s0 = [] \<and> callout s0 \<noteq> None \<and> currentStep s0 = 0 \<and> tutorialSteps s0 = student_steps
      \<and> (\<forall>st \<in> set (tutorialSteps s0). querySelector s0 (target st) \<noteq> None)
      \<and> advance_n 19 s0 = Some s' \<and> currentStep s' = 19 \<and> isActive s'
      \<and> advance s' = Some s'' \<and> currentStep s'' = 19 \<and> \<not> isActive s''
      \<and> localStorage s'' ''sclera_tutorial_completed'' = Some ''true''
      \<and> fetches s'' = [completion_request]"
proof -
  from student_start obtain s0 where s0: "start (constructor student_page) = Some s0"
      "timers s0 = []" "currentStep s0 = 0"
      "display s0 = Some (title (student_steps ! 0), 1, 20, True)"
      "tutorialSteps s0 = student_steps" "querySelector s0 = (\<lambda>sel. Some tile)"
      "isActive s0" "localStorage s0 = localStorage (constructor student_page)"
      "fetches s0 = fetches (constructor student_page)"
    by blast
  from display_Some [OF s0(4)] have c: "callout s0 \<noteq> None" by auto
  have ne: "tutorialSteps s0 \<noteq> []" using s0(5) length_student_steps by auto
  have q: "\<forall>st \<in> set (tutorialSteps s0). querySelector s0 (target st) \<noteq> None"
    by (simp add: s0(6))
  have f: "fetches (constructor student_page) = []"
    by (simp add: constructor_returning student_page_def fresh_def)
  from advance_to_last_then_complete [OF s0(2) c s0(3) ne q] s0 c q f
  show ?thesis by (auto simp: length_student_steps)
qed

text \<open>
  C2, as amended. On an idle page whose account type has no steps, \<open>startTutorial\<close> sets
  \<open>isActive\<close>, creates the overlay and the callout and queues \<open>showStep(0)\<close>. When the
  loop is idle again that call has ended the tutorial: \<open>isActive\<close> is false, overlay and
  callout are removed from the document, and nothing was stored or sent, so the tutorial
  is ended but not completed. In every state the loop passes through on the way the
  callout is unfilled and hidden.
\<close>

theorem empty_catalog_start_renders_then_ends:
  assumes "timers s = []" and "getTutorialSteps s = []"
  shows "isActive (startTutorial s) \<and> tutorialSteps (startTutorial s) = []
     \<and> currentStep (startTutorial s) = 0
     \<and> overlay (startTutorial s) = Some \<lparr>ov_active = False, ov_attached = True\<rparr>
     \<and> callout (startTutorial s) = Some initial_callout
     \<and> (\<exists>s'. start s = Some s' \<and> \<not> isActive s' \<and> timers s' = []
           \<and> overlay s' = Some \<lparr>ov_active = False, ov_attached = False\<rparr>
           \<and> callout s' = Some (initial_callout\<lparr>c_attached := False\<rparr>)
           \<and> display s' = Some ([], 1, 0, False)
           \<and> localStorage s' = localStorage s \<and> fetches s' = fetches s)
     \<and> (\<forall>n. display ((tick ^^ n) (startTutorial s)) = Some ([], 1, 0, False))"
proof -
  have "start s = settle (endTutorial (started s))"
    using assms by (simp add: start_unfold showStep_def started_def)
  then have "\<exists>s'. start s = Some s' \<and> \<not> isActive s' \<and> timers s' = []
           \<and> overlay s' = Some \<lparr>ov_active = False, ov_attached = False\<rparr>
           \<and> callout s' = Some (initial_callout\<lparr>c_attached := False\<rparr>)
           \<and> display s' = Some ([], 1, 0, False)
           \<and> localStorage s' = localStorage s \<and> fetches s' = fetches s"
    by (simp add: endTutorial_def started_def setTimeout_def Let_def settle_step settle_idle
        tick_case display_def initial_callout_def)
  then show ?thesis
    using assms empty_catalog_never_visible [OF assms] by (simp add: startTutorial_idle)
qed

text \<open>The dashboard of the other account type is such a page.\<close>

theorem empty_catalog_start_witness:
  "timers (constructor teacher_page) = [] \<and> getTutorialSteps (constructor teacher_page) = []
   \<and> isActive (startTutorial (constructor teacher_page))
   \<and> (\<exists>s'. start (constructor teacher_page) = Some s' \<and> \<not> isActive s'
         \<and> overlay s' = Some \<lparr>ov_active = False, ov_attached = False\<rparr>
         \<and> display s' = Some ([], 1, 0, False)
         \<and> localStorage s' ''sclera_tutorial_completed'' = None \<and> fetches s' = [])"
proof -
  have f: "localStorage (constructor teacher_page) ''sclera_tutorial_completed'' = None"
    "fetches (constructor teacher_page) = []"
    by (simp_all add: constructor_returning teacher_page_def student_page_def fresh_def)
  from empty_catalog_start_renders_then_ends [OF teacher_idle(1) teacher_idle(2)] f
  show ?thesis by (auto simp: teacher_idle)
qed

text \<open>
  C2 as stated fails: right after \<open>startTutorial\<close> on that dashboard the tutorial is
  active and the overlay is in the document.
\<close>

theorem empty_catalog_start_is_active_with_overlay:
  "getTutorialSteps (constructor teacher_page) = []
   \<and> \<not> (\<not> isActive (startTutorial (constructor teacher_page))
        \<and> overlay (startTutorial (constructor teacher_page)) = None)
   \<and> isActive (startTutorial (constructor teacher_page))
   \<and> overlay (startTutorial (constructor teacher_page))
        = Some \<lparr>ov_active = False, ov_attached = True\<rparr>"
  by (simp add: startTutorial_idle teacher_idle)



text \<open>
  C4, as amended. In every state a page can reach, whether or not the tutorial is
  active, the current index is at least \<open>0\<close>, and it is below the length of the catalog
  unless the catalog is empty, in which case it is \<open>0\<close>.
\<close>

theorem index_within_catalog:
  "reachable s \<Longrightarrow>
     0 \<le> currentStep s \<and>
     (currentStep s < int (length (tutorialSteps s)) \<or> tutorialSteps s = [] \<and> currentStep s = 0)"
  using reachable_index_ok by (simp add: index_ok_def)

text \<open>
  The amended invariant at a state with all its parts: a student's tutorial has just been
  started, it is active, and the index \<open>0\<close> is inside the catalog of twenty steps.
\<close>

theorem index_within_catalog_witness:
  "reachable (startTutorial (constructor student_page))
   \<and> isActive (startTutorial (constructor student_page))
   \<and> tutorialSteps (startTutorial (constructor student_page)) = student_steps
   \<and> 0 \<le> currentStep (startTutorial (constructor student_page))
   \<and> currentStep (startTutorial (constructor student_page))
        < int (length (tutorialSteps (startTutorial (constructor student_page))))"
proof -
  have r: "reachable (startTutorial (constructor student_page))"
    by (rule r_start [OF r_load])
  show ?thesis
    using r index_within_catalog [OF r]
    by (simp add: startTutorial_idle student_idle length_student_steps)
qed

text \<open>
  C4 as stated fails: on the dashboard of an account type without steps,
  \<open>startTutorial\<close> sets \<open>isActive\<close> while the catalog is empty, so the index \<open>0\<close> is not
  below the length \<open>0\<close>. The state lasts until the queued \<open>showStep(0)\<close> ends the tutorial.
\<close>

theorem active_with_empty_catalog:
  "reachable (startTutorial (constructor teacher_page))
   \<and> isActive (startTutorial (constructor teacher_page))
   \<and> \<not> (0 \<le> currentStep (startTutorial (constructor teacher_page))
        \<and> currentStep (startTutorial (constructor teacher_page))
            < int (length (tutorialSteps (startTutorial (constructor teacher_page)))))"
proof -
  have "reachable (startTutorial (constructor teacher_page))"
    by (rule r_start [OF r_load])
  then show ?thesis by (simp add: startTutorial_idle teacher_idle)
qed




text \<open>
  C6. \<open>completeTutorial\<close> stores \<open>"true"\<close> under \<open>sclera_tutorial_completed\<close>, issues exactly
  one request, the \<open>POST\<close> of \<open>{"completed":true}\<close> to \<open>/api/tutorial/complete\<close>, and leaves
  the tutorial inactive. If
  the request is rejected, the handler of the rejection changes neither the stored flags
  nor \<open>isActive\<close>, and issues no further request.
\<close>

theorem complete_persists_notifies_once:
  \<open>localStorage (completeTutorial s) ''sclera_tutorial_completed'' = Some ''true''
   \<and> fetches (completeTutorial s) = fetches s @ [completion_request]
   \<and> url completion_request = ''/api/tutorial/complete''
   \<and> http_method completion_request = ''POST''
   \<and> body completion_request = ''{"completed":true}''
   \<and> \<not> isActive (completeTutorial s)
   \<and> localStorage (fetchRejected err (completeTutorial s)) = localStorage (completeTutorial s)
   \<and> isActive (fetchRejected err (completeTutorial s)) = isActive (completeTutorial s)
   \<and> fetches (fetchRejected err (completeTutorial s)) = fetches (completeTutorial s)\<close>
  by (simp add: completeTutorial_def endTutorial_def showCompletionMessage_def setTimeout_def
      fetchRejected_def completion_request_def Let_def split: option.split)

text \<open>
  C7. If the user document does not exist, or its \<open>class_ids\<close> is absent or empty, the
  handler creates no batch and the store is unchanged. Otherwise it commits one merge per
  entry of \<open>class_ids\<close>, in order, and nothing else: user documents and the summaries of
  other classes are untouched, and in the summary of each listed class
  \<open>total_assessments\<close> has grown by \<open>1\<close> and \<open>total_score_sum\<close> by the percentage of the
  result (\<open>0\<close> if absent) for every occurrence of the class in the list, counting a missing
  summary or field as \<open>0\<close>; \<open>last_updated\<close> is the server time and all other fields are
  kept.
\<close>

theorem result_created_updates_each_class:
  "(users db userId = None \<longrightarrow>
      onResultCreated db result userId = None \<and> handle_result time db result userId = db)
   \<and> (users db1 userId1 = Some u1 \<and> (case class_ids u1 of None \<Rightarrow> [] | Some cs \<Rightarrow> cs) = [] \<longrightarrow>
      onResultCreated db1 result userId1 = None \<and> handle_result time db1 result userId1 = db1)
   \<and> (users db2 userId2 = Some u2 \<and> class_ids u2 = Some cs \<and> cs \<noteq> [] \<longrightarrow>
      onResultCreated db2 result userId2 = Some (batch_sets result cs)
      \<and> map w_class (batch_sets result cs) = cs
      \<and> users (handle_result time db2 result userId2) = users db2
      \<and> (\<forall>c. c \<notin> set cs \<longrightarrow>
            summaries (handle_result time db2 result userId2) c = summaries db2 c)
      \<and> (\<forall>c \<in> set cs. \<exists>d.
            summaries (handle_result time db2 result userId2) c = Some d
            \<and> d ''total_assessments''
                = Some (Num (num_field (summaries db2 c) ''total_assessments''
                             + real (count_list cs c)))
            \<and> d ''total_score_sum''
                = Some (Num (num_field (summaries db2 c) ''total_score_sum''
                             + real (count_list cs c)
                               * (case percentage result of None \<Rightarrow> 0 | Some p \<Rightarrow> p)))
            \<and> d ''last_updated'' = Some (Timestamp time)
            \<and> (\<forall>f. f \<noteq> ''total_assessments'' \<and> f \<noteq> ''total_score_sum'' \<and> f \<noteq> ''last_updated''
                  \<longrightarrow> d f = (case summaries db2 c of None \<Rightarrow> None | Some m \<Rightarrow> m f))))"
proof (intro conjI impI)
  assume "users db userId = None"
  then show "onResultCreated db result userId = None" "handle_result time db result userId = db"
    by (simp_all add: onResultCreated_def handle_result_def)
next
  assume "users db1 userId1 = Some u1 \<and> (case class_ids u1 of None \<Rightarrow> [] | Some cs \<Rightarrow> cs) = []"
  then show "onResultCreated db1 result userId1 = None"
    "handle_result time db1 result userId1 = db1"
    by (simp_all add: onResultCreated_def handle_result_def)
next
  assume a: "users db2 userId2 = Some u2 \<and> class_ids u2 = Some cs \<and> cs \<noteq> []"
  then show b: "onResultCreated db2 result userId2 = Some (batch_sets result cs)"
    by (simp add: onResultCreated_def)
  show "map w_class (batch_sets result cs) = cs"
    by (induction cs) simp_all
  have h: "handle_result time db2 result userId2 = commit time (batch_sets result cs) db2"
    by (simp add: handle_result_def b)
  show "users (handle_result time db2 result userId2) = users db2"
    by (simp add: h commit_users)
  show "\<forall>c. c \<notin> set cs \<longrightarrow>
            summaries (handle_result time db2 result userId2) c = summaries db2 c"
    by (simp add: h commit_batch_sets count_list_0_iff)
  show "\<forall>c \<in> set cs. \<exists>d.
            summaries (handle_result time db2 result userId2) c = Some d
            \<and> d ''total_assessments''
                = Some (Num (num_field (summaries db2 c) ''total_assessments''
                             + real (count_list cs c)))
            \<and> d ''total_score_sum''
                = Some (Num (num_field (summaries db2 c) ''total_score_sum''
                             + real (count_list cs c)
                               * (case percentage result of None \<Rightarrow> 0 | Some p \<Rightarrow> p)))
            \<and> d ''last_updated'' = Some (Timestamp time)
            \<and> (\<forall>f. f \<noteq> ''total_assessments'' \<and> f \<noteq> ''total_score_sum'' \<and> f \<noteq> ''last_updated''
                  \<longrightarrow> d f = (case summaries db2 c of None \<Rightarrow> None | Some m \<Rightarrow> m f))"
  proof
    fix c assume "c \<in> set cs"
    then have "0 < count_list cs c" using count_list_0_iff [of cs c] by auto
    from upsert_iterated [OF this] show "\<exists>d.
            summaries (handle_result time db2 result userId2) c = Some d
            \<and> d ''total_assessments''
                = Some (Num (num_field (summaries db2 c) ''total_assessments''
                             + real (count_list cs c)))
            \<and> d ''total_score_sum''
                = Some (Num (num_field (summaries db2 c) ''total_score_sum''
                             + real (count_list cs c)
                               * (case percentage result of None \<Rightarrow> 0 | Some p \<Rightarrow> p)))
            \<and> d ''last_updated'' = Some (Timestamp time)
            \<and> (\<forall>f. f \<noteq> ''total_assessments'' \<and> f \<noteq> ''total_score_sum'' \<and> f \<noteq> ''last_updated''
                  \<longrightarrow> d f = (case summaries db2 c of None \<Rightarrow> None | Some m \<Rightarrow> m f))"
      by (simp add: h commit_batch_sets)
  qed
qed

text \<open>
  In the example store: no user \<open>zoe\<close>, \<open>bob\<close> without classes, and \<open>ada\<close> in the classes
  \<open>c1\<close>, which has a summary with \<open>4\<close> assessments and a score sum of \<open>250\<close>, and \<open>c2\<close>,
  which has none. The result carries \<open>80\<close> percent.
\<close>

theorem result_created_witness:
  "users demo_db ''zoe'' = None \<and> handle_result 1000 demo_db demo_result ''zoe'' = demo_db
   \<and> users demo_db ''bob'' = Some \<lparr>class_ids = Some []\<rparr>
   \<and> handle_result 1000 demo_db demo_result ''bob'' = demo_db
   \<and> users demo_db ''ada'' = Some \<lparr>class_ids = Some [''c1'', ''c2'']\<rparr>
   \<and> onResultCreated demo_db demo_result ''ada'' = Some (batch_sets demo_result [''c1'', ''c2''])
   \<and> summaries (handle_result 1000 demo_db demo_result ''ada'') ''c3'' = None
   \<and> (\<exists>d. summaries (handle_result 1000 demo_db demo_result ''ada'') ''c1'' = Some d
         \<and> d ''total_assessments'' = Some (Num 5) \<and> d ''total_score_sum'' = Some (Num 330)
         \<and> d ''last_updated'' = Some (Timestamp 1000) \<and> d ''teacher'' = Some (Str ''kay''))
   \<and> (\<exists>d. summaries (handle_result 1000 demo_db demo_result ''ada'') ''c2'' = Some d
         \<and> d ''total_assessments'' = Some (Num 1) \<and> d ''total_score_sum'' = Some (Num 80)
         \<and> d ''last_updated'' = Some (Timestamp 1000))"
proof -
  note t = result_created_updates_each_class
    [of demo_db "''zoe''" demo_result 1000 demo_db "''bob''" "\<lparr>class_ids = Some []\<rparr>"
        demo_db "''ada''" "\<lparr>class_ids = Some [''c1'', ''c2'']\<rparr>" "[''c1'', ''c2'']"]
  have a: "handle_result 1000 demo_db demo_result ''zoe'' = demo_db"
    using t demo_db_facts(1) by blast
  have b: "handle_result 1000 demo_db demo_result ''bob'' = demo_db"
    using t demo_db_facts(2) by simp
  have h: "users demo_db ''ada'' = Some \<lparr>class_ids = Some [''c1'', ''c2'']\<rparr>
      \<and> class_ids \<lparr>class_ids = Some [''c1'', ''c2'']\<rparr> = Some [''c1'', ''c2'']
      \<and> [''c1'', ''c2''] \<noteq> ([] :: string list)"
    by (simp add: demo_db_facts)
  from t h have c: "onResultCreated demo_db demo_result ''ada''
        = Some (batch_sets demo_result [''c1'', ''c2''])"
    and n: "\<forall>c. c \<notin> set [''c1'', ''c2''] \<longrightarrow>
            summaries (handle_result 1000 demo_db demo_result ''ada'') c = summaries demo_db c"
    and e: "\<forall>c \<in> set [''c1'', ''c2'']. \<exists>d.
            summaries (handle_result 1000 demo_db demo_result ''ada'') c = Some d
            \<and> d ''total_assessments''
                = Some (Num (num_field (summaries demo_db c) ''total_assessments''
                             + real (count_list [''c1'', ''c2''] c)))
            \<and> d ''total_score_sum''
                = Some (Num (num_field (summaries demo_db c) ''total_score_sum''
                             + real (count_list [''c1'', ''c2''] c)
                               * (case percentage demo_result of None \<Rightarrow> 0 | Some p \<Rightarrow> p)))
            \<and> d ''last_updated'' = Some (Timestamp 1000)
            \<and> (\<forall>f. f \<noteq> ''total_assessments'' \<and> f \<noteq> ''total_score_sum'' \<and> f \<noteq> ''last_updated''
                  \<longrightarrow> d f = (case summaries demo_db c of None \<Rightarrow> None | Some m \<Rightarrow> m f))"
    by blast+
  have c3: "summaries (handle_result 1000 demo_db demo_result ''ada'') ''c3'' = None"
    using n by (simp add: demo_db_facts)
  from e obtain d1 where d1: "summaries (handle_result 1000 demo_db demo_result ''ada'') ''c1'' = Some d1"
     "d1 ''total_assessments'' = Some (Num (num_field (summaries demo_db ''c1'') ''total_assessments''
                             + real (count_list [''c1'', ''c2''] ''c1'')))"
     "d1 ''total_score_sum'' = Some (Num (num_field (summaries demo_db ''c1'') ''total_score_sum''
                             + real (count_list [''c1'', ''c2''] ''c1'')
                               * (case percentage demo_result of None \<Rightarrow> 0 | Some p \<Rightarrow> p)))"
     "d1 ''last_updated'' = Some (Timestamp 1000)"
     "d1 ''teacher'' = (case summaries demo_db ''c1'' of None \<Rightarrow> None | Some m \<Rightarrow> m ''teacher'')"
    by fastforce
  from e obtain d2 where d2: "summaries (handle_result 1000 demo_db demo_result ''ada'') ''c2'' = Some d2"
     "d2 ''total_assessments'' = Some (Num (num_field (summaries demo_db ''c2'') ''total_assessments''
                             + real (count_list [''c1'', ''c2''] ''c2'')))"
     "d2 ''total_score_sum'' = Some (Num (num_field (summaries demo_db ''c2'') ''total_score_sum''
                             + real (count_list [''c1'', ''c2''] ''c2'')
                               * (case percentage demo_result of None \<Rightarrow> 0 | Some p \<Rightarrow> p)))"
     "d2 ''last_updated'' = Some (Timestamp 1000)"
    by fastforce
  have "\<exists>d. summaries (handle_result 1000 demo_db demo_result ''ada'') ''c1'' = Some d
         \<and> d ''total_assessments'' = Some (Num 5) \<and> d ''total_score_sum'' = Some (Num 330)
         \<and> d ''last_updated'' = Some (Timestamp 1000) \<and> d ''teacher'' = Some (Str ''kay'')"
    using d1 by (simp add: demo_db_facts demo_db_teacher demo_result_def)
  moreover have "\<exists>d. summaries (handle_result 1000 demo_db demo_result ''ada'') ''c2'' = Some d
         \<and> d ''total_assessments'' = Some (Num 1) \<and> d ''total_score_sum'' = Some (Num 80)
         \<and> d ''last_updated'' = Some (Timestamp 1000)"
    using d2 by (simp add: demo_db_facts demo_result_def)
  ultimately show ?thesis using a b c c3 by (simp add: demo_db_facts)
qed

text \<open>
  C8. \<open>skipTutorial\<close> changes the store at the key \<open>sclera_tutorial_skipped\<close> only, which
  it sets to \<open>"true"\<close>. \<open>endTutorial\<close> leaves the whole store as it is, and so do the
  callbacks that the two handlers queue.
\<close>

theorem skip_writes_one_flag_end_none:
  "localStorage (skipTutorial s) = (localStorage s)(''sclera_tutorial_skipped'' \<mapsto> ''true'')
   \<and> localStorage (endTutorial s) = localStorage s
   \<and> localStorage (run_action ModalRemove s) = localStorage s
   \<and> localStorage (run_action CalloutRemove s) = localStorage s
   \<and> localStorage (run_action OverlayRemove s) = localStorage s"
  by (simp add: skipTutorial_def endTutorial_def setTimeout_def Let_def split: option.split)

text \<open>
  C9. With the index at \<open>0\<close> \<open>previousStep\<close> returns the state it was given: index,
  active flag, callout and timers are unchanged. With the index above \<open>0\<close> and the loop
  idle, it hides the callout and queues one callback, which runs
  \<open>showStep(currentStep - 1)\<close>.
\<close>

theorem retreat_at_first_step_is_noop:
  "(currentStep s \<le> 0 \<longrightarrow> previousStep s = s)
   \<and> (0 < currentStep t \<and> callout t = Some c \<and> timers t = [] \<longrightarrow>
        previousStep t = setTimeout ShowStepPrev 300 (t\<lparr>callout := Some (c\<lparr>c_active := False\<rparr>)\<rparr>)
        \<and> timers (previousStep t) = [(now t + 300, ShowStepPrev)]
        \<and> retreat t = settle (showStep (currentStep t - 1)
              (t\<lparr>callout := Some (c\<lparr>c_active := False\<rparr>), timers := [], now := now t + 300\<rparr>)))"
  by (simp add: previousStep_def retreat_def setTimeout_def settle_step tick_case)

text \<open>
  On the student's dashboard: the started tutorial is at index \<open>0\<close>, and after one advance
  it is at index \<open>1\<close>.
\<close>

theorem retreat_witness:
  "\<exists>s0 s1 c. start (constructor student_page) = Some s0 \<and> advance s0 = Some s1
      \<and> currentStep s0 \<le> 0 \<and> previousStep s0 = s0
      \<and> 0 < currentStep s1 \<and> callout s1 = Some c \<and> timers s1 = []
      \<and> timers (previousStep s1) = [(now s1 + 300, ShowStepPrev)]
      \<and> retreat s1 = settle (showStep 0
              (s1\<lparr>callout := Some (c\<lparr>c_active := False\<rparr>), timers := [], now := now s1 + 300\<rparr>))"
proof -
  from student_start obtain s0 where s0: "start (constructor student_page) = Some s0"
      "timers s0 = []" "currentStep s0 = 0"
      "display s0 = Some (title (student_steps ! 0), 1, 20, True)"
      "tutorialSteps s0 = student_steps" "querySelector s0 = (\<lambda>sel. Some tile)"
    by blast
  from display_Some [OF s0(4)] obtain c0 where c0: "callout s0 = Some c0" by blast
  have "\<exists>s'. advance s0 = Some s' \<and> timers s' = [] \<and> currentStep s' = currentStep s0 + 1
           \<and> display s' = Some (title (tutorialSteps s0 ! nat (currentStep s0 + 1)),
                currentStep s0 + 2, length (tutorialSteps s0), True)
           \<and> tutorialSteps s' = tutorialSteps s0 \<and> querySelector s' = querySelector s0
           \<and> isActive s' = isActive s0 \<and> localStorage s' = localStorage s0
           \<and> fetches s' = fetches s0"
    by (rule advance_found [OF s0(2) c0, of tile]) (simp_all add: s0 length_student_steps)
  then obtain s1 where s1: "advance s0 = Some s1" "timers s1 = []" "currentStep s1 = 1"
     "display s1 = Some (title (tutorialSteps s0 ! nat (currentStep s0 + 1)),
                currentStep s0 + 2, length (tutorialSteps s0), True)"
    using s0(3) by auto
  from display_Some [OF s1(4)] obtain c where c: "callout s1 = Some c" by blast
  from retreat_at_first_step_is_noop [of s0 s1 c] s0 s1 c
  show ?thesis by auto
qed

text \<open>
  C10. A page loaded with \<open>tutorial=start\<close> drops the query string, queues
  \<open>startTutorial\<close> and leaves the store as it was. If \<open>sclera_visited\<close> was not set and the
  tutorial was not completed, and the forced tutorial is started and then closed, a later
  load without the parameter queues the welcome prompt, which then enters the document.
\<close>

theorem url_start_leaves_visited_unset:
  assumes "map_of (p_search p) ''tutorial'' = Some ''start''"
    and "p_localStorage p ''sclera_visited'' = None"
    and "p_localStorage p ''sclera_tutorial_completed'' \<noteq> Some ''true''"
    and "map_of srch ''tutorial'' \<noteq> Some ''start''"
  shows "search (constructor p) = [] \<and> timers (constructor p) = [(500, StartTutorial)]
     \<and> localStorage (constructor p) = p_localStorage p
     \<and> localStorage (endTutorial (tick (constructor p))) = p_localStorage p
     \<and> timers (constructor (p\<lparr>p_localStorage := localStorage (endTutorial (tick (constructor p))),
                               p_search := srch\<rparr>)) = [(800, ShowWelcomeModal)]
     \<and> modal (tick (constructor (p\<lparr>p_localStorage := localStorage (endTutorial (tick (constructor p))),
                               p_search := srch\<rparr>))) = Some False"
proof -
  have c: "constructor p = setTimeout StartTutorial 500
             ((fresh p)\<lparr>hasCompletedTutorial := False, search := []\<rparr>)"
    using assms by (simp add: constructor_def init_def fresh_def checkTutorialStatus_def)
  have t: "tick (constructor p) = startTutorial ((fresh p)\<lparr>hasCompletedTutorial := False,
             search := [], timers := [], now := 500\<rparr>)"
    by (simp add: c tick_case setTimeout_def fresh_def)
  have l: "localStorage (endTutorial (tick (constructor p))) = p_localStorage p"
    by (simp add: t endTutorial_def Let_def setTimeout_def startTutorial_idle fresh_def
        split: option.split)
  show ?thesis
    using assms
    by (simp add: l) (simp add: c constructor_def init_def fresh_def checkTutorialStatus_def
        setTimeout_def tick_case showWelcomeModal_def Let_def)
qed

text \<open>A first visit through such a link, followed by a plain visit.\<close>

theorem url_start_witness:
  "map_of (p_search linked_page) ''tutorial'' = Some ''start''
   \<and> p_localStorage linked_page ''sclera_visited'' = None
   \<and> search (constructor linked_page) = []
   \<and> timers (constructor linked_page) = [(500, StartTutorial)]
   \<and> localStorage (constructor linked_page) ''sclera_visited'' = None
   \<and> timers (constructor (linked_page\<lparr>p_localStorage :=
                 localStorage (endTutorial (tick (constructor linked_page))), p_search := []\<rparr>))
        = [(800, ShowWelcomeModal)]"
proof -
  have h: "map_of (p_search linked_page) ''tutorial'' = Some ''start''"
    "p_localStorage linked_page ''sclera_visited'' = None"
    "p_localStorage linked_page ''sclera_tutorial_completed'' \<noteq> Some ''true''"
    "map_of ([] :: (string \<times> string) list) ''tutorial'' \<noteq> Some ''start''"
    by (simp_all add: linked_page_def student_page_def)
  note u = url_start_leaves_visited_unset [OF h]
  have "localStorage (constructor linked_page) ''sclera_visited'' = None"
    using u h(2) by simp
  moreover have "timers (constructor (linked_page\<lparr>p_localStorage :=
                 localStorage (endTutorial (tick (constructor linked_page))), p_search := []\<rparr>))
        = [(800, ShowWelcomeModal)]"
    using u by blast
  ultimately show ?thesis using u h(1,2) by blast
qed

end
